theory Spec2Isabelle
  imports Complex_Main
begin

section \<open>Python values\<close>

text \<open>
  The program is dynamically typed: the state file, the response bodies and the fields of
  the probe result are JSON-shaped Python values. A float is kept only as far as the
  program looks at it (its truth value): a finite float is the rational it denotes.
  A dict is an association list in insertion order (the sweep iterates \<open>items()\<close> in
  that order); the keys of a Python dict are distinct, and \<open>map_of\<close> reads a key.
  A \<open>str\<close> is the bytes of its UTF-8 encoding; a lone surrogate, which UTF-8 refuses,
  is the three bytes \<open>ED A0..BF 80..BF\<close> that the \<open>surrogatepass\<close> handler gives it.
\<close>

datatype pyfloat = Finite rat | PosInf | NegInf | NaN

datatype pyval =
    PNone
  | PBool bool
  | PInt int
  | PFloat pyfloat
  | PStr string
  | PList "pyval list"
  | PDict "(string \<times> pyval) list"

text \<open>Python's truth value test (\<open>bool(x)\<close>, \<open>not x\<close>, \<open>x or y\<close>).\<close>

fun truthy :: "pyval \<Rightarrow> bool" where
  "truthy PNone = False"
| "truthy (PBool b) = b"
| "truthy (PInt i) = (i \<noteq> 0)"
| "truthy (PFloat (Finite q)) = (q \<noteq> 0)"
| "truthy (PFloat f) = True"
| "truthy (PStr s) = (s \<noteq> [])"
| "truthy (PList xs) = (xs \<noteq> [])"
| "truthy (PDict kvs) = (kvs \<noteq> [])"

text \<open>The exceptions of the model, named as Python names them.\<close>

datatype error =
    AttributeError
  | KeyError
  | TypeError
  | ValueError
  | OSError
  | UnicodeEncodeError
  | SendError string

text \<open>\<open>x.get(k, default)\<close>: only a dict has the method.\<close>

fun py_get :: "pyval \<Rightarrow> string \<Rightarrow> pyval \<Rightarrow> error + pyval" where
  "py_get (PDict kvs) k dflt = Inr (case map_of kvs k of None \<Rightarrow> dflt | Some v \<Rightarrow> v)"
| "py_get v k dflt = Inl AttributeError"

text \<open>\<open>for x in v\<close>: a list gives its elements, a string its characters, a dict its keys.\<close>

fun py_iter :: "pyval \<Rightarrow> error + pyval list" where
  "py_iter (PList xs) = Inr xs"
| "py_iter (PStr s) = Inr (map (\<lambda>c. PStr [c]) s)"
| "py_iter (PDict kvs) = Inr (map (\<lambda>kv. PStr (fst kv)) kvs)"
| "py_iter v = Inl TypeError"

section \<open>The world outside the program\<close>

text \<open>
  One request of \<open>api_check_unlocked\<close>: a POST to \<open>req_url\<close> with the headers
  \<open>Authorization: Bearer <req_bearer>\<close> and \<open>Content-Type: application/json\<close>, the JSON
  body \<open>{"account": <req_account>}\<close> and a timeout of 20.
\<close>

record request =
  req_url :: pyval
  req_bearer :: pyval
  req_account :: pyval

text \<open>
  What \<open>session.post\<close> followed by \<open>resp.text()\<close> gives: an exception (with its
  \<open>str\<close>), or a status code and the body text.
\<close>

datatype transport_outcome = Raised string | Response int string

type_synonym datetime = nat

text \<open>
  \<open>format_notification\<close> fills a fixed Markdown template with the account, the status
  label chosen by \<open>unlocked\<close> and two renderings of the same instant. The model keeps the
  three arguments the text is made from.
\<close>

record notification =
  n_account :: pyval
  n_unlocked :: bool
  n_time :: datetime

definition format_notification :: "pyval \<Rightarrow> bool \<Rightarrow> datetime \<Rightarrow> notification" where
  "format_notification account unl check_dt =
     \<lparr>n_account = account, n_unlocked = unl, n_time = check_dt\<rparr>"

text \<open>
  What the program does to the outside, in order: the requests it issues and the
  messages it hands to \<open>bot.send_message\<close> (an attempt is recorded whether or not it is
  delivered).
\<close>

datatype event = Post request | SendMessage int notification

text \<open>
  The library and the outside world. \<open>json_loads\<close> and \<open>int_of_str\<close> are Python's
  \<open>json.loads\<close> and \<open>int\<close> on a string (\<open>None\<close> where they raise), and
  \<open>json_iterencode\<close> is the sequence of chunks that \<open>json.dump\<close> writes one by one:
  \<open>JSONEncoder(ensure_ascii=False, indent=2).iterencode\<close>. The answers of the endpoint,
  of Telegram and of the clock may depend on everything that happened before.
\<close>

record env =
  json_loads :: "string \<Rightarrow> pyval option"
  json_iterencode :: "pyval \<Rightarrow> string list"
  int_of_str :: "string \<Rightarrow> int option"
  http_post :: "event list \<Rightarrow> request \<Rightarrow> transport_outcome"
  send_message :: "event list \<Rightarrow> int \<Rightarrow> notification \<Rightarrow> string option"
  now :: "event list \<Rightarrow> datetime"

text \<open>The whole serialisation, \<open>json.dumps(d, ensure_ascii=False, indent=2)\<close>.\<close>

definition json_dumps :: "env \<Rightarrow> pyval \<Rightarrow> string" where
  "json_dumps e d = concat (json_iterencode e d)"

section \<open>The status prober\<close>

text \<open>The dict \<open>out\<close> of \<open>api_check_unlocked\<close>.\<close>

record probe_result =
  ok :: bool
  unlocked :: bool
  raw :: pyval
  status :: pyval

text \<open>
  Lines 68 to 74: the unlocked signal of a parsed body, where \<open>dflt\<close> is the value
  \<open>out["unlocked"]\<close> holds before.
\<close>

definition extract_unlocked :: "pyval \<Rightarrow> bool \<Rightarrow> bool" where
  "extract_unlocked parsed dflt =
     (case parsed of
        PDict kvs \<Rightarrow>
          (case map_of kvs ''unlocked'' of
             Some v \<Rightarrow> truthy v
           | None \<Rightarrow>
               if map_of kvs ''status'' = Some (PStr ''ok'')
                  \<or> map_of kvs ''status'' = Some (PStr ''success'')
               then
                 (let got = (case map_of kvs ''data'' of None \<Rightarrow> PNone | Some v \<Rightarrow> v);
                      inner = (if truthy got then got else PDict [])
                  in case inner of
                       PDict ivs \<Rightarrow>
                         (case map_of ivs ''unlocked'' of
                            Some v \<Rightarrow> truthy v
                          | None \<Rightarrow> dflt)
                     | _ \<Rightarrow> dflt)
               else dflt)
      | _ \<Rightarrow> dflt)"

text \<open>
  \<open>api_check_unlocked\<close>, with the trace of events so far passed in and returned. The
  only operations of the \<open>try\<close> block that raise are the request and the reading of the
  body (the outcome \<open>Raised\<close>), caught by the handler of lines 76 to 79, and
  \<open>json.loads\<close>, caught by the inner handler (\<open>parsed = None\<close>).
\<close>

definition api_check_unlocked ::
  "env \<Rightarrow> pyval \<Rightarrow> pyval \<Rightarrow> pyval \<Rightarrow> event list \<Rightarrow> probe_result \<times> event list" where
  "api_check_unlocked e base_url bearer account tr =
     (let out = \<lparr>ok = False, unlocked = False, raw = PNone, status = PNone\<rparr> in
      if \<not> truthy base_url \<or> \<not> truthy bearer
      then (out\<lparr>status := PStr ''not-configured''\<rparr>, tr)
      else
        (let rq = \<lparr>req_url = base_url, req_bearer = bearer, req_account = account\<rparr>
         in case http_post e tr rq of
              Raised msg \<Rightarrow>
                (out\<lparr>status := PStr ''error'', raw := PStr msg\<rparr>, tr @ [Post rq])
            | Response code text \<Rightarrow>
                (let parsed = (case json_loads e text of None \<Rightarrow> PNone | Some p \<Rightarrow> p);
                     out1 = out\<lparr>status := PInt code,
                                raw := (if truthy parsed then parsed else PStr text),
                                ok := (code < 400)\<rparr>
                 in (out1\<lparr>unlocked := extract_unlocked parsed (unlocked out1)\<rparr>,
                     tr @ [Post rq]))))"

section \<open>The subscription store\<close>

text \<open>The state \<open>load_data\<close> returns when the file is missing or cannot be read.\<close>

definition default_data :: pyval where
  "default_data =
     PDict [(''chats'', PDict []),
            (''api'', PDict [(''url'', PStr []), (''token'', PStr [])]),
            (''last_seen_unlocked'', PDict []),
            (''include_raw'', PBool False)]"

text \<open>
  The state file is \<open>None\<close> when it does not exist and its text otherwise.
  \<open>load_data\<close> returns whatever \<open>json.load\<close> makes of the text, unvalidated; every
  exception of reading or parsing (\<open>json_loads\<close> giving \<open>None\<close>) is caught.
\<close>

definition load_data :: "env \<Rightarrow> string option \<Rightarrow> pyval" where
  "load_data e file =
     (case file of
        None \<Rightarrow> default_data
      | Some text \<Rightarrow>
          (case json_loads e text of
             None \<Rightarrow> default_data
           | Some d \<Rightarrow> d))"

text \<open>
  Whether a byte string is well-formed UTF-8, as the \<open>utf-8\<close> codec of the text file
  accepts it: no stray or missing continuation byte, no overlong form, no surrogate and
  nothing above U+10FFFF. A \<open>str\<close> can be encoded exactly when its bytes pass.
\<close>

definition byte_in :: "nat \<Rightarrow> nat \<Rightarrow> char \<Rightarrow> bool" where
  "byte_in lo hi c = (lo \<le> of_char c \<and> of_char c \<le> hi)"

fun utf8_valid :: "string \<Rightarrow> bool" where
  "utf8_valid [] = True"
| "utf8_valid (a # cs) =
     (if byte_in 0x00 0x7F a then utf8_valid cs
      else if byte_in 0xC2 0xDF a then
        (case cs of
           b # r \<Rightarrow> byte_in 0x80 0xBF b \<and> utf8_valid r
         | _ \<Rightarrow> False)
      else if byte_in 0xE0 0xEF a then
        (case cs of
           b # c # r \<Rightarrow>
             (if a = CHR 0xE0 then byte_in 0xA0 0xBF b
              else if a = CHR 0xED then byte_in 0x80 0x9F b
              else byte_in 0x80 0xBF b)
             \<and> byte_in 0x80 0xBF c \<and> utf8_valid r
         | _ \<Rightarrow> False)
      else if byte_in 0xF0 0xF4 a then
        (case cs of
           b # c # d # r \<Rightarrow>
             (if a = CHR 0xF0 then byte_in 0x90 0xBF b
              else if a = CHR 0xF4 then byte_in 0x80 0x8F b
              else byte_in 0x80 0xBF b)
             \<and> byte_in 0x80 0xBF c \<and> byte_in 0x80 0xBF d \<and> utf8_valid r
         | _ \<Rightarrow> False)
      else False)"

text \<open>
  \<open>json.dump\<close> hands the chunks to \<open>f.write\<close> one by one. A chunk that cannot be
  encoded raises \<open>UnicodeEncodeError\<close>; the chunks written before it reach the file when
  the \<open>with\<close> block closes it.
\<close>

fun write_chunks :: "string list \<Rightarrow> string \<Rightarrow> error option \<times> string" where
  "write_chunks [] written = (None, written)"
| "write_chunks (c # cs) written =
     (if utf8_valid c then write_chunks cs (written @ c)
      else (Some UnicodeEncodeError, written))"

text \<open>
  \<open>save_data\<close> opens the state file itself with mode \<open>w\<close>, which truncates it, and
  writes the serialisation into it. Where the operating system lets it down is an input
  of the model: not at all, when opening (nothing is truncated yet), or after \<open>n\<close>
  characters have reached the file (an operating system failure that would come after
  an encoding failure never happens). A failure is raised to the caller.
\<close>

datatype write_fault = NoFault | OpenFault | WriteFault nat

definition save_data ::
  "env \<Rightarrow> pyval \<Rightarrow> write_fault \<Rightarrow> string option \<Rightarrow> error option \<times> string option" where
  "save_data e d fault file =
     (case fault of
        OpenFault \<Rightarrow> (Some OSError, file)
      | NoFault \<Rightarrow>
          (case write_chunks (json_iterencode e d) [] of
             (err, written) \<Rightarrow> (err, Some written))
      | WriteFault n \<Rightarrow>
          (case write_chunks (json_iterencode e d) [] of
             (err, written) \<Rightarrow>
               if err = None \<or> n < length written
               then (Some OSError, Some (take n written))
               else (err, Some written)))"

section \<open>The scheduler sweep\<close>

text \<open>\<open>d[k]\<close> and \<open>d.items()\<close>.\<close>

fun py_index :: "pyval \<Rightarrow> string \<Rightarrow> error + pyval" where
  "py_index (PDict kvs) k = (case map_of kvs k of None \<Rightarrow> Inl KeyError | Some v \<Rightarrow> Inr v)"
| "py_index v k = Inl TypeError"

fun py_items :: "pyval \<Rightarrow> error + (string \<times> pyval) list" where
  "py_items (PDict kvs) = Inr kvs"
| "py_items v = Inl AttributeError"

text \<open>
  The body of the inner loop (lines 152 to 156) for one account of one chat. The result
  is \<open>None\<close> when the body completes and the exception that leaves it otherwise:
  \<open>int(chat_id)\<close> and \<open>send_message\<close> are not inside any \<open>try\<close>.
\<close>

definition check_account ::
  "env \<Rightarrow> pyval \<Rightarrow> pyval \<Rightarrow> string \<Rightarrow> pyval \<Rightarrow> event list \<Rightarrow> error option \<times> event list" where
  "check_account e base_url bearer chat_id acc tr =
     (case api_check_unlocked e base_url bearer acc tr of
        (res, tr1) \<Rightarrow>
          if unlocked res
          then
            (let check_time = now e tr1;
                 txt = format_notification acc True check_time
             in case int_of_str e chat_id of
                  None \<Rightarrow> (Some ValueError, tr1)
                | Some cid \<Rightarrow>
                    (case send_message e tr1 cid txt of
                       None \<Rightarrow> (None, tr1 @ [SendMessage cid txt])
                     | Some msg \<Rightarrow> (Some (SendError msg), tr1 @ [SendMessage cid txt])))
          else (None, tr1))"

text \<open>The inner loop: an exception leaves it, and nothing after it runs.\<close>

fun check_accounts ::
  "env \<Rightarrow> pyval \<Rightarrow> pyval \<Rightarrow> string \<Rightarrow> pyval list \<Rightarrow> event list \<Rightarrow> error option \<times> event list" where
  "check_accounts e base_url bearer chat_id [] tr = (None, tr)"
| "check_accounts e base_url bearer chat_id (acc # accs) tr =
     (case check_account e base_url bearer chat_id acc tr of
        (None, tr1) \<Rightarrow> check_accounts e base_url bearer chat_id accs tr1
      | (Some err, tr1) \<Rightarrow> (Some err, tr1))"

text \<open>The outer loop over \<open>d["chats"].items()\<close>.\<close>

fun check_chats ::
  "env \<Rightarrow> pyval \<Rightarrow> pyval \<Rightarrow> (string \<times> pyval) list \<Rightarrow> event list \<Rightarrow> error option \<times> event list" where
  "check_chats e base_url bearer [] tr = (None, tr)"
| "check_chats e base_url bearer ((chat_id, cfg) # rest) tr =
     (case py_get cfg ''accounts'' (PList []) of
        Inl err \<Rightarrow> (Some err, tr)
      | Inr a \<Rightarrow>
          (case py_iter a of
             Inl err \<Rightarrow> (Some err, tr)
           | Inr accs \<Rightarrow>
               (case check_accounts e base_url bearer chat_id accs tr of
                  (None, tr1) \<Rightarrow> check_chats e base_url bearer rest tr1
                | (Some err, tr1) \<Rightarrow> (Some err, tr1))))"

text \<open>
  \<open>periodic_check\<close>: one sweep, from the state file and the trace so far to the
  exception that ended it (\<open>None\<close> when it returned) and the trace after it. It never
  calls \<open>save_data\<close>, so the state file is the same after it.
\<close>

definition periodic_check ::
  "env \<Rightarrow> string option \<Rightarrow> event list \<Rightarrow> error option \<times> event list" where
  "periodic_check e file tr =
     (let d = load_data e file in
      case py_get d ''api'' (PDict []) of
        Inl err \<Rightarrow> (Some err, tr)
      | Inr api \<Rightarrow>
          (case py_get api ''url'' PNone of
             Inl err \<Rightarrow> (Some err, tr)
           | Inr base_url \<Rightarrow>
               (case py_get api ''token'' PNone of
                  Inl err \<Rightarrow> (Some err, tr)
                | Inr bearer \<Rightarrow>
                    if \<not> truthy base_url \<or> \<not> truthy bearer then (None, tr)
                    else
                      (case py_index d ''chats'' of
                         Inl err \<Rightarrow> (Some err, tr)
                       | Inr chats \<Rightarrow>
                           (case py_items chats of
                              Inl err \<Rightarrow> (Some err, tr)
                            | Inr items \<Rightarrow> check_chats e base_url bearer items tr)))))"

section \<open>The specification's words\<close>

text \<open>
  The extraction policy as the specification words it: rule 1 (a mapping with the key
  \<open>unlocked\<close>), else rule 2 (\<open>status\<close> equal to \<open>ok\<close> or \<open>success\<close> and a mapping
  under \<open>data\<close> that has the key \<open>unlocked\<close>), else false.
\<close>

definition spec_rule1 :: "pyval \<Rightarrow> bool option" where
  "spec_rule1 body =
     (case body of
        PDict kvs \<Rightarrow> map_option truthy (map_of kvs ''unlocked'')
      | _ \<Rightarrow> None)"

definition spec_rule2 :: "pyval \<Rightarrow> bool option" where
  "spec_rule2 body =
     (case body of
        PDict kvs \<Rightarrow>
          (if map_of kvs ''status'' \<in> {Some (PStr ''ok''), Some (PStr ''success'')}
           then (case map_of kvs ''data'' of
                   Some (PDict ivs) \<Rightarrow> map_option truthy (map_of ivs ''unlocked'')
                 | _ \<Rightarrow> None)
           else None)
      | _ \<Rightarrow> None)"

definition spec_unlocked :: "pyval \<Rightarrow> bool" where
  "spec_unlocked body =
     (case spec_rule1 body of
        Some b \<Rightarrow> b
      | None \<Rightarrow> (case spec_rule2 body of Some b \<Rightarrow> b | None \<Rightarrow> False))"

text \<open>
  The (chat, account) pairs of a well-formed \<open>chats\<close> mapping in sweep order:
  every chat id is the text of an integer and every entry is a mapping whose
  \<open>accounts\<close>, when present, is a list. \<open>None\<close> for any other shape.
\<close>

fun tracked :: "env \<Rightarrow> (string \<times> pyval) list \<Rightarrow> (int \<times> pyval) list option" where
  "tracked e [] = Some []"
| "tracked e ((chat_id, cfg) # rest) =
     (case (int_of_str e chat_id, py_get cfg ''accounts'' (PList [])) of
        (Some cid, Inr (PList accs)) \<Rightarrow>
          (case tracked e rest of
             None \<Rightarrow> None
           | Some ps \<Rightarrow> Some (map (Pair cid) accs @ ps))
      | _ \<Rightarrow> None)"

text \<open>
  The sweep as the specification words it, over the pairs in order: probe, then notify
  if the probe reports unlocked. It has no failure of its own.
\<close>

fun probe_all :: "env \<Rightarrow> pyval \<Rightarrow> pyval \<Rightarrow> (int \<times> pyval) list \<Rightarrow> event list \<Rightarrow> event list" where
  "probe_all e base_url bearer [] tr = tr"
| "probe_all e base_url bearer ((cid, acc) # ps) tr =
     (case api_check_unlocked e base_url bearer acc tr of
        (res, tr1) \<Rightarrow>
          probe_all e base_url bearer ps
            (if unlocked res
             then tr1 @ [SendMessage cid (format_notification acc True (now e tr1))]
             else tr1))"

text \<open>The requests and the notification attempts of a trace.\<close>

fun posts :: "event list \<Rightarrow> request list" where
  "posts [] = []"
| "posts (Post rq # evs) = rq # posts evs"
| "posts (SendMessage cid n # evs) = posts evs"

fun sends :: "event list \<Rightarrow> (int \<times> notification) list" where
  "sends [] = []"
| "sends (Post rq # evs) = sends evs"
| "sends (SendMessage cid n # evs) = (cid, n) # sends evs"

section \<open>Sample inputs\<close>

text \<open>
  The part of \<open>json.loads\<close>, of the chunks of \<open>json.dump\<close> and of \<open>int\<close> that the
  examples below evaluate: each text is listed with the value Python gives for it, and
  the texts the examples meet outside the list are ones Python rejects.
\<close>

definition state_one :: string where
  \<open>state_one = ''{"chats": {"1001": {"accounts": ["gamer123"], "interval_min": 5}}, "api": {"url": "https://api.example/check", "token": "secret"}, "last_seen_unlocked": {"gamer123": true}, "include_raw": false}''\<close>

definition state_one_value :: pyval where
  "state_one_value =
     PDict [(''chats'', PDict [(''1001'', PDict [(''accounts'', PList [PStr ''gamer123'']),
                                                 (''interval_min'', PInt 5)])]),
            (''api'', PDict [(''url'', PStr ''https://api.example/check''),
                             (''token'', PStr ''secret'')]),
            (''last_seen_unlocked'', PDict [(''gamer123'', PBool True)]),
            (''include_raw'', PBool False)]"

definition state_two :: string where
  \<open>state_two = ''{"chats": {"1001": {"accounts": ["gamer123", "gamer456"], "interval_min": 5}}, "api": {"url": "https://api.example/check", "token": "secret"}, "last_seen_unlocked": {}, "include_raw": false}''\<close>

definition state_two_value :: pyval where
  "state_two_value =
     PDict [(''chats'', PDict [(''1001'', PDict [(''accounts'', PList [PStr ''gamer123'',
                                                                      PStr ''gamer456'']),
                                                 (''interval_min'', PInt 5)])]),
            (''api'', PDict [(''url'', PStr ''https://api.example/check''),
                             (''token'', PStr ''secret'')]),
            (''last_seen_unlocked'', PDict []),
            (''include_raw'', PBool False)]"

definition state_one_dumped :: string where
  \<open>state_one_dumped = ''{\<newline>  "chats": {\<newline>    "1001": {\<newline>      "accounts": [\<newline>        "gamer123"\<newline>      ],\<newline>      "interval_min": 5\<newline>    }\<newline>  },\<newline>  "api": {\<newline>    "url": "https://api.example/check",\<newline>    "token": "secret"\<newline>  },\<newline>  "last_seen_unlocked": {\<newline>    "gamer123": true\<newline>  },\<newline>  "include_raw": false\<newline>}''\<close>

definition state_one_fresh :: string where
  \<open>state_one_fresh = ''{"chats": {"1001": {"accounts": ["gamer123"], "interval_min": 5}}, "api": {"url": "https://api.example/check", "token": "secret"}, "last_seen_unlocked": {}, "include_raw": false}''\<close>

definition state_one_fresh_value :: pyval where
  "state_one_fresh_value =
     PDict [(''chats'', PDict [(''1001'', PDict [(''accounts'', PList [PStr ''gamer123'']),
                                                 (''interval_min'', PInt 5)])]),
            (''api'', PDict [(''url'', PStr ''https://api.example/check''),
                             (''token'', PStr ''secret'')]),
            (''last_seen_unlocked'', PDict []),
            (''include_raw'', PBool False)]"

text \<open>The beginning of a state file whose writing was cut short.\<close>

definition corrupt_text :: string where
  \<open>corrupt_text = ''{"chats": {"1001"''\<close>

definition default_one_line :: string where
  \<open>default_one_line = ''{"chats": {}, "api": {"url": "", "token": ""}, "last_seen_unlocked": {}, "include_raw": false}''\<close>

definition default_dumped :: string where
  \<open>default_dumped = ''{\<newline>  "chats": {},\<newline>  "api": {\<newline>    "url": "",\<newline>    "token": ""\<newline>  },\<newline>  "last_seen_unlocked": {},\<newline>  "include_raw": false\<newline>}''\<close>

definition body_unlocked :: string where
  \<open>body_unlocked = ''{"unlocked": true}''\<close>

definition body_priority :: string where
  \<open>body_priority = ''{"unlocked": false, "status": "ok", "data": {"unlocked": true}}''\<close>

definition body_priority_value :: pyval where
  "body_priority_value =
     PDict [(''unlocked'', PBool False), (''status'', PStr ''ok''),
            (''data'', PDict [(''unlocked'', PBool True)])]"

definition loads_table :: "string \<Rightarrow> pyval option" where
  \<open>loads_table s =
     (if s = state_one then Some state_one_value
      else if s = state_one_dumped then Some state_one_value
      else if s = state_one_fresh then Some state_one_fresh_value
      else if s = state_two then Some state_two_value
      else if s = default_one_line then Some default_data
      else if s = default_dumped then Some default_data
      else if s = body_unlocked then Some (PDict [(''unlocked'', PBool True)])
      else if s = body_priority then Some body_priority_value
      else if s = ''null'' then Some PNone
      else if s = ''false'' then Some (PBool False)
      else if s = ''0'' then Some (PInt 0)
      else if s = ''""'' then Some (PStr [])
      else if s = ''{}'' then Some (PDict [])
      else if s = ''[]'' then Some (PList [])
      else None)\<close>

definition state_one_chunks :: "string list" where
  \<open>state_one_chunks =
     [''{'', ''\<newline>  '', ''"chats"'', '': '', ''{'', ''\<newline>    '',
      ''"1001"'', '': '', ''{'', ''\<newline>      '', ''"accounts"'', '': '',
      ''[\<newline>        "gamer123"'', ''\<newline>      '', '']'',
      '',\<newline>      '', ''"interval_min"'', '': '', ''5'', ''\<newline>    '',
      ''}'', ''\<newline>  '', ''}'', '',\<newline>  '', ''"api"'', '': '', ''{'',
      ''\<newline>    '', ''"url"'', '': '', ''"https://api.example/check"'',
      '',\<newline>    '', ''"token"'', '': '', ''"secret"'', ''\<newline>  '', ''}'',
      '',\<newline>  '', ''"last_seen_unlocked"'', '': '', ''{'', ''\<newline>    '',
      ''"gamer123"'', '': '', ''true'', ''\<newline>  '', ''}'', '',\<newline>  '',
      ''"include_raw"'', '': '', ''false'', ''\<newline>'', ''}'']\<close>

definition default_chunks :: "string list" where
  \<open>default_chunks =
     [''{'', ''\<newline>  '', ''"chats"'', '': '', ''{}'', '',\<newline>  '', ''"api"'',
      '': '', ''{'', ''\<newline>    '', ''"url"'', '': '', ''""'', '',\<newline>    '',
      ''"token"'', '': '', ''""'', ''\<newline>  '', ''}'', '',\<newline>  '',
      ''"last_seen_unlocked"'', '': '', ''{}'', '',\<newline>  '', ''"include_raw"'',
      '': '', ''false'', ''\<newline>'', ''}'']\<close>

definition iterencode_table :: "pyval \<Rightarrow> string list" where
  "iterencode_table v =
     (if v = state_one_value then state_one_chunks
      else if v = default_data then default_chunks
      else [''null''])"

definition int_table :: "string \<Rightarrow> int option" where
  "int_table s = (if s = ''1001'' then Some 1001 else None)"

text \<open>
  An endpoint that answers every request with status 200 and the body
  \<open>{"unlocked": true}\<close>, a Telegram that delivers every message, and a clock that
  advances with every event.
\<close>

definition sample_env :: env where
  "sample_env =
     \<lparr>json_loads = loads_table, json_iterencode = iterencode_table,
      int_of_str = int_table,
      http_post = (\<lambda>tr rq. Response 200 body_unlocked),
      send_message = (\<lambda>tr cid n. None),
      now = (\<lambda>tr. length tr)\<rparr>"

text \<open>The same, but the request for \<open>gamer123\<close> times out.\<close>

definition flaky_env :: env where
  "flaky_env =
     sample_env\<lparr>http_post :=
       (\<lambda>tr rq. if req_account rq = PStr ''gamer123'' then Raised ''TimeoutError''
                 else Response 200 body_unlocked)\<rparr>"

text \<open>The same as \<open>sample_env\<close>, but Telegram refuses every message.\<close>

definition blocked_env :: env where
  "blocked_env =
     sample_env\<lparr>send_message :=
       (\<lambda>tr cid n. Some ''Forbidden: bot was blocked by the user'')\<rparr>"

section \<open>Lemmas about the prober and the traces\<close>

lemmas sample_defs =
  sample_env_def loads_table_def iterencode_table_def int_table_def
  state_one_def state_one_value_def state_one_dumped_def state_one_fresh_def
  state_one_fresh_value_def state_two_def state_two_value_def default_one_line_def
  default_dumped_def body_unlocked_def body_priority_def body_priority_value_def
  default_data_def

lemma extract_unlocked_spec: "extract_unlocked parsed False = spec_unlocked parsed"
  by (auto simp: extract_unlocked_def spec_unlocked_def spec_rule1_def spec_rule2_def Let_def
      split: pyval.splits option.splits if_splits)

lemma api_response:
  "truthy base_url \<Longrightarrow> truthy bearer \<Longrightarrow>
   http_post e tr \<lparr>req_url = base_url, req_bearer = bearer, req_account = account\<rparr>
     = Response code text \<Longrightarrow>
   api_check_unlocked e base_url bearer account tr =
     (\<lparr>ok = (code < 400),
       unlocked = extract_unlocked (case json_loads e text of None \<Rightarrow> PNone | Some p \<Rightarrow> p) False,
       raw = (case json_loads e text of
                None \<Rightarrow> PStr text
              | Some p \<Rightarrow> if truthy p then p else PStr text),
       status = PInt code\<rparr>,
      tr @ [Post \<lparr>req_url = base_url, req_bearer = bearer, req_account = account\<rparr>])"
  by (simp add: api_check_unlocked_def Let_def split: option.splits)

lemma api_trace:
  "truthy base_url \<Longrightarrow> truthy bearer \<Longrightarrow>
   snd (api_check_unlocked e base_url bearer account tr) =
     tr @ [Post \<lparr>req_url = base_url, req_bearer = bearer, req_account = account\<rparr>]"
  by (simp add: api_check_unlocked_def Let_def split: transport_outcome.splits)

lemma posts_append: "posts (xs @ ys) = posts xs @ posts ys"
  by (induction xs rule: posts.induct) simp_all

lemma sends_append: "sends (xs @ ys) = sends xs @ sends ys"
  by (induction xs rule: sends.induct) simp_all

section \<open>The status prober: claims\<close>

text \<open>
  C4. The unlocked field of a probe whose transport succeeded is the extraction policy of
  the specification applied to the parsed body: rule 1 (a top-level \<open>unlocked\<close> key of a
  mapping) before rule 2 (\<open>status\<close> equal to \<open>ok\<close> or \<open>success\<close> with a mapping under
  \<open>data\<close> that has \<open>unlocked\<close>), and false otherwise, also when the body does not
  parse. For the body
  \<open>{"unlocked": false, "status": "ok", "data": {"unlocked": true}}\<close> the field is false.
\<close>

theorem parse_priority:
  "truthy base_url \<Longrightarrow> truthy bearer \<Longrightarrow>
   http_post e tr \<lparr>req_url = base_url, req_bearer = bearer, req_account = account\<rparr>
     = Response code text \<Longrightarrow>
   unlocked (fst (api_check_unlocked e base_url bearer account tr))
     = (case json_loads e text of None \<Rightarrow> False | Some body \<Rightarrow> spec_unlocked body)
   \<and> (json_loads e text = Some body_priority_value \<longrightarrow>
        \<not> unlocked (fst (api_check_unlocked e base_url bearer account tr)))"
  by (auto simp: api_response extract_unlocked_spec [symmetric] extract_unlocked_def
        body_priority_value_def split: option.splits)

theorem parse_priority_witness:
  "truthy (PStr ''https://api.example/check'') \<and> truthy (PStr ''secret'')
   \<and> json_loads (sample_env\<lparr>http_post := \<lambda>tr rq. Response 200 body_priority\<rparr>) body_priority
       = Some body_priority_value
   \<and> \<not> unlocked (fst (api_check_unlocked
        (sample_env\<lparr>http_post := \<lambda>tr rq. Response 200 body_priority\<rparr>)
        (PStr ''https://api.example/check'') (PStr ''secret'') (PStr ''gamer123'') []))"
  using parse_priority [of "PStr ''https://api.example/check''" "PStr ''secret''"
      "sample_env\<lparr>http_post := \<lambda>tr rq. Response 200 body_priority\<rparr>" "[]"
      "PStr ''gamer123''" 200 body_priority]
  by (simp add: sample_defs spec_unlocked_def spec_rule1_def)

text \<open>
  C5. The probe never raises: the model of \<open>api_check_unlocked\<close> is a total function
  into probe results, because every operation of the source that can raise is inside the
  \<open>try\<close> block. Whatever the transport does with the one request of a configured
  probe, there is a result. When the transport fails (a timeout, a connection or a DNS
  error), the result has \<open>ok\<close> false, \<open>unlocked\<close> false, the status \<open>error\<close> and
  the description of the error as \<open>raw\<close>; when it succeeds, the status is the status
  code of the response.
\<close>

theorem transport_failure_caught:
  "truthy base_url \<Longrightarrow> truthy bearer \<Longrightarrow>
   (case http_post e tr \<lparr>req_url = base_url, req_bearer = bearer, req_account = account\<rparr> of
      Raised msg \<Rightarrow>
        api_check_unlocked e base_url bearer account tr =
          (\<lparr>ok = False, unlocked = False, raw = PStr msg, status = PStr ''error''\<rparr>,
           tr @ [Post \<lparr>req_url = base_url, req_bearer = bearer, req_account = account\<rparr>])
    | Response code text \<Rightarrow>
        status (fst (api_check_unlocked e base_url bearer account tr)) = PInt code
        \<and> snd (api_check_unlocked e base_url bearer account tr) =
            tr @ [Post \<lparr>req_url = base_url, req_bearer = bearer, req_account = account\<rparr>])"
  by (simp add: api_check_unlocked_def Let_def split: transport_outcome.splits)

theorem transport_failure_caught_witness:
  "truthy (PStr ''https://api.example/check'') \<and> truthy (PStr ''secret'')
   \<and> api_check_unlocked flaky_env (PStr ''https://api.example/check'') (PStr ''secret'')
        (PStr ''gamer123'') [] =
     (\<lparr>ok = False, unlocked = False, raw = PStr ''TimeoutError'', status = PStr ''error''\<rparr>,
      [Post \<lparr>req_url = PStr ''https://api.example/check'', req_bearer = PStr ''secret'',
             req_account = PStr ''gamer123''\<rparr>])"
  using transport_failure_caught [where base_url = "PStr ''https://api.example/check''"
      and bearer = "PStr ''secret''" and e = flaky_env and tr = "[]"
      and account = "PStr ''gamer123''"]
  by (simp add: sample_defs flaky_env_def)

text \<open>
  C6. When the base URL or the bearer token is empty (or falsy in any other way), the
  probe returns at once with the status \<open>not-configured\<close> and \<open>ok\<close> false, and issues no
  request: the trace is the one it was given, whatever the endpoint would have answered.
\<close>

theorem not_configured_short_circuit:
  "\<not> truthy base_url \<or> \<not> truthy bearer \<Longrightarrow>
   api_check_unlocked e base_url bearer account tr =
     (\<lparr>ok = False, unlocked = False, raw = PNone, status = PStr ''not-configured''\<rparr>, tr)"
  by (auto simp: api_check_unlocked_def)

theorem not_configured_short_circuit_witness:
  "\<not> truthy (PStr [])
   \<and> api_check_unlocked sample_env (PStr []) (PStr ''secret'') (PStr ''gamer123'') [] =
     (\<lparr>ok = False, unlocked = False, raw = PNone, status = PStr ''not-configured''\<rparr>, [])"
  using not_configured_short_circuit [of "PStr []" "PStr ''secret''" sample_env
      "PStr ''gamer123''" "[]"]
  by simp

text \<open>
  C8. The \<open>ok\<close> field of a probe is true exactly when the endpoint is configured, the
  transport succeeds and the status code of the response is below 400; it is false
  whenever the transport fails.
\<close>

theorem ok_iff_status_below_400:
  "ok (fst (api_check_unlocked e base_url bearer account tr)) =
     (truthy base_url \<and> truthy bearer \<and>
      (case http_post e tr \<lparr>req_url = base_url, req_bearer = bearer, req_account = account\<rparr> of
         Response code text \<Rightarrow> code < 400
       | Raised msg \<Rightarrow> False))"
  by (auto simp: api_check_unlocked_def Let_def split: transport_outcome.splits)

theorem ok_iff_status_below_400_witness:
  "ok (fst (api_check_unlocked sample_env (PStr ''https://api.example/check'') (PStr ''secret'')
        (PStr ''gamer123'') []))
   \<and> \<not> ok (fst (api_check_unlocked (sample_env\<lparr>http_post := \<lambda>tr rq. Response 400 ''{}''\<rparr>)
        (PStr ''https://api.example/check'') (PStr ''secret'') (PStr ''gamer123'') []))
   \<and> \<not> ok (fst (api_check_unlocked flaky_env (PStr ''https://api.example/check'')
        (PStr ''secret'') (PStr ''gamer123'') []))"
  using ok_iff_status_below_400 [of sample_env "PStr ''https://api.example/check''"
      "PStr ''secret''" "PStr ''gamer123''" "[]"]
    ok_iff_status_below_400 [of "sample_env\<lparr>http_post := \<lambda>tr rq. Response 400 ''{}''\<rparr>"
      "PStr ''https://api.example/check''" "PStr ''secret''" "PStr ''gamer123''" "[]"]
    ok_iff_status_below_400 [of flaky_env "PStr ''https://api.example/check''"
      "PStr ''secret''" "PStr ''gamer123''" "[]"]
  by (simp add: sample_defs flaky_env_def)

text \<open>
  C10. When the transport succeeds, \<open>raw\<close> holds the parsed body only if that value is
  truthy. When the body parses to a falsy value (null, false, 0, 0.0, an empty string,
  an empty mapping or an empty list), as when it does not parse at all, \<open>raw\<close> holds the
  text of the response.
\<close>

theorem raw_keeps_text_when_falsy:
  "truthy base_url \<Longrightarrow> truthy bearer \<Longrightarrow>
   http_post e tr \<lparr>req_url = base_url, req_bearer = bearer, req_account = account\<rparr>
     = Response code text \<Longrightarrow>
   raw (fst (api_check_unlocked e base_url bearer account tr))
     = (case json_loads e text of
          None \<Rightarrow> PStr text
        | Some parsed \<Rightarrow> if truthy parsed then parsed else PStr text)
   \<and> (json_loads e text \<in> {Some PNone, Some (PBool False), Some (PInt 0),
          Some (PFloat (Finite 0)), Some (PStr []), Some (PDict []), Some (PList [])} \<longrightarrow>
        raw (fst (api_check_unlocked e base_url bearer account tr)) = PStr text)"
  by (auto simp: api_response)

theorem raw_keeps_text_when_falsy_witness:
  "truthy (PStr ''https://api.example/check'') \<and> truthy (PStr ''secret'')
   \<and> json_loads (sample_env\<lparr>http_post := \<lambda>tr rq. Response 200 ''{}''\<rparr>) ''{}'' = Some (PDict [])
   \<and> raw (fst (api_check_unlocked (sample_env\<lparr>http_post := \<lambda>tr rq. Response 200 ''{}''\<rparr>)
        (PStr ''https://api.example/check'') (PStr ''secret'') (PStr ''gamer123'') []))
      = PStr ''{}''"
  using raw_keeps_text_when_falsy [of "PStr ''https://api.example/check''" "PStr ''secret''"
      "sample_env\<lparr>http_post := \<lambda>tr rq. Response 200 ''{}''\<rparr>" "[]"
      "PStr ''gamer123''" 200 "''{}''"]
  by (simp add: sample_defs)

section \<open>The subscription store: claims\<close>

lemma periodic_check_default:
  "load_data e file = default_data \<Longrightarrow> periodic_check e file tr = (None, tr)"
  by (simp add: periodic_check_def default_data_def)

text \<open>
  C7, as stated, fails: the state file holds \<open>[]\<close>, which is JSON but no store state.
  \<open>load_data\<close> returns the empty list, not the default state, and its caller
  \<open>periodic_check\<close> raises \<open>AttributeError\<close> at \<open>d.get("api", {})\<close>.
\<close>

theorem unvalidated_state_counterexample:
  "json_loads sample_env ''[]'' = Some (PList [])
   \<and> load_data sample_env (Some ''[]'') = PList []
   \<and> load_data sample_env (Some ''[]'') \<noteq> default_data
   \<and> periodic_check sample_env (Some ''[]'') [] = (Some AttributeError, [])"
  by (simp add: sample_defs load_data_def periodic_check_def)

text \<open>
  C7, amended. \<open>load_data\<close> never fails. When the file is missing, or reading or
  parsing it raises, it returns the default state: an empty \<open>chats\<close> mapping, an \<open>api\<close>
  entry with empty url and token, and an empty \<open>last_seen_unlocked\<close> cache; its caller
  \<open>periodic_check\<close> then returns normally, having done nothing. When the file parses,
  it returns the parsed value as the persisted state, whatever its shape.
\<close>

theorem load_data_never_fails:
  "load_data e None = default_data
   \<and> (json_loads e text = None \<longrightarrow> load_data e (Some text) = default_data)
   \<and> (json_loads e text = Some d \<longrightarrow> load_data e (Some text) = d)
   \<and> py_index default_data ''chats'' = Inr (PDict [])
   \<and> py_index default_data ''api'' = Inr (PDict [(''url'', PStr []), (''token'', PStr [])])
   \<and> py_index default_data ''last_seen_unlocked'' = Inr (PDict [])
   \<and> (file = None \<or> (\<exists>t. file = Some t \<and> json_loads e t = None) \<longrightarrow>
        periodic_check e file tr = (None, tr))"
proof -
  have "load_data e file = default_data"
    if "file = None \<or> (\<exists>t. file = Some t \<and> json_loads e t = None)"
    using that by (auto simp: load_data_def)
  then show ?thesis
    by (auto simp: load_data_def periodic_check_default) (simp_all add: default_data_def)
qed

theorem load_data_never_fails_witness:
  "load_data sample_env None = default_data
   \<and> json_loads sample_env corrupt_text = None
   \<and> load_data sample_env (Some corrupt_text) = default_data
   \<and> periodic_check sample_env (Some corrupt_text) [] = (None, [])
   \<and> json_loads sample_env state_one = Some state_one_value
   \<and> load_data sample_env (Some state_one) = state_one_value"
  using load_data_never_fails [of sample_env corrupt_text state_one_value "Some corrupt_text" "[]"]
    load_data_never_fails [of sample_env state_one state_one_value None "[]"]
  by (simp add: sample_defs corrupt_text_def)

subsection \<open>Writing the chunks\<close>

lemma write_chunks_valid:
  "list_all utf8_valid cs \<Longrightarrow> write_chunks cs w = (None, w @ concat cs)"
  by (induction cs arbitrary: w) simp_all

lemma write_chunks_complete:
  "fst (write_chunks cs w) = None \<Longrightarrow> snd (write_chunks cs w) = w @ concat cs"
  by (induction cs arbitrary: w) (simp_all split: if_splits)

lemma write_chunks_prefix:
  "\<exists>k. snd (write_chunks cs w) = w @ take k (concat cs)"
proof (induction cs arbitrary: w)
  case Nil
  then show ?case by simp
next
  case (Cons c cs)
  show ?case
  proof (cases "utf8_valid c")
    case True
    from Cons [of "w @ c"] obtain k where
      k: "snd (write_chunks cs (w @ c)) = (w @ c) @ take k (concat cs)" by blast
    have "snd (write_chunks (c # cs) w) = w @ take (length c + k) (concat (c # cs))"
      using True k by simp
    then show ?thesis by blast
  next
    case False
    then have "snd (write_chunks (c # cs) w) = w @ take 0 (concat (c # cs))" by simp
    then show ?thesis by blast
  qed
qed

lemma write_chunks_invalid:
  "\<not> list_all utf8_valid cs \<Longrightarrow> fst (write_chunks cs w) = Some UnicodeEncodeError"
  by (induction cs arbitrary: w) auto

lemma state_one_chunks_dumped: "concat state_one_chunks = state_one_dumped"
  by (simp add: state_one_chunks_def state_one_dumped_def)

lemma state_one_chunks_valid: "list_all utf8_valid state_one_chunks"
  by (simp add: state_one_chunks_def byte_in_def)

text \<open>
  C3, as stated, fails: a good state file with one subscriber is there, the write of
  \<open>save_data\<close> fails after 40 characters, and the file is left half-written; the next
  \<open>load_data\<close> returns the default state, and the previous good state is lost.
\<close>

theorem failed_write_counterexample:
  \<open>load_data sample_env (Some state_one) = state_one_value
   \<and> save_data sample_env state_one_value (WriteFault 40) (Some state_one)
       = (Some OSError, Some ''{\<newline>  "chats": {\<newline>    "1001": {\<newline>      "acco'')
   \<and> load_data sample_env
         (snd (save_data sample_env state_one_value (WriteFault 40) (Some state_one)))
       = default_data
   \<and> default_data \<noteq> state_one_value\<close>
proof -
  have w: "write_chunks (json_iterencode sample_env state_one_value) []
           = (None, state_one_dumped)"
    using write_chunks_valid [OF state_one_chunks_valid, of "[]"]
    by (simp add: sample_env_def iterencode_table_def state_one_chunks_dumped)
  have s: "save_data sample_env state_one_value (WriteFault 40) (Some state_one)
           = (Some OSError, Some (take 40 state_one_dumped))"
    by (simp add: save_data_def w)
  show ?thesis
    unfolding s by (simp add: sample_defs load_data_def)
qed

text \<open>
  C3, amended. \<open>save_data\<close> rewrites the state file in place, with no temporary file
  and no rename. A save that completes leaves exactly the serialisation of the full
  state, which loads back as that state. A save that fails when opening the file leaves
  the previous content. A save that fails while writing (the operating system fails, or
  a string of the state cannot be encoded) leaves a prefix of the new serialisation in
  place of the previous content, and when that prefix does not parse the next load
  returns the default state. When every chunk can be encoded, the save completes unless
  the operating system fails, and a failure after \<open>n\<close> characters leaves the first
  \<open>n\<close> characters of the serialisation.
\<close>

theorem save_data_in_place:
  "(fst (save_data e d fault file) = None \<longrightarrow>
      snd (save_data e d fault file) = Some (json_dumps e d))
   \<and> save_data e d OpenFault file = (Some OSError, file)
   \<and> (fault \<noteq> OpenFault \<and> fst (save_data e d fault file) \<noteq> None \<longrightarrow>
        (\<exists>k. snd (save_data e d fault file) = Some (take k (json_dumps e d))))
   \<and> (list_all utf8_valid (json_iterencode e d) \<longrightarrow>
        save_data e d NoFault file = (None, Some (json_dumps e d))
        \<and> save_data e d (WriteFault n) file = (Some OSError, Some (take n (json_dumps e d)))
        \<and> (json_loads e (json_dumps e d) = Some d \<longrightarrow>
             load_data e (snd (save_data e d NoFault file)) = d)
        \<and> (json_loads e (take n (json_dumps e d)) = None \<longrightarrow>
             load_data e (snd (save_data e d (WriteFault n) file)) = default_data))
   \<and> (\<not> list_all utf8_valid (json_iterencode e d) \<longrightarrow>
        fst (save_data e d NoFault file) = Some UnicodeEncodeError)"
proof -
  obtain err w where w: "write_chunks (json_iterencode e d) [] = (err, w)"
    by (cases "write_chunks (json_iterencode e d) []")
  obtain k where k: "w = take k (json_dumps e d)"
    using write_chunks_prefix [of "json_iterencode e d" "[]"] w
    by (auto simp: json_dumps_def)
  have complete: "w = json_dumps e d" if "err = None"
    using write_chunks_complete [of "json_iterencode e d" "[]"] w that
    by (simp add: json_dumps_def)
  have c1: "fst (save_data e d fault file) = None \<longrightarrow>
      snd (save_data e d fault file) = Some (json_dumps e d)"
    using complete by (cases fault) (auto simp: save_data_def w)
  have c2: "save_data e d OpenFault file = (Some OSError, file)"
    by (simp add: save_data_def)
  have c3: "\<exists>j. snd (save_data e d fault file) = Some (take j (json_dumps e d))"
    if "fault \<noteq> OpenFault"
  proof (cases fault)
    case NoFault
    then show ?thesis using k by (auto simp: save_data_def w)
  next
    case OpenFault
    with that show ?thesis by simp
  next
    case (WriteFault n)
    have "take n w = take (min n k) (json_dumps e d)"
      by (simp add: k min.commute)
    then show ?thesis
      using k WriteFault by (auto simp: save_data_def w)
  qed
  have c4: "save_data e d NoFault file = (None, Some (json_dumps e d))
        \<and> save_data e d (WriteFault n) file = (Some OSError, Some (take n (json_dumps e d)))
        \<and> (json_loads e (json_dumps e d) = Some d \<longrightarrow>
             load_data e (snd (save_data e d NoFault file)) = d)
        \<and> (json_loads e (take n (json_dumps e d)) = None \<longrightarrow>
             load_data e (snd (save_data e d (WriteFault n) file)) = default_data)"
    if "list_all utf8_valid (json_iterencode e d)"
    using write_chunks_valid [OF that, of "[]"]
    by (simp add: save_data_def load_data_def json_dumps_def)
  have c5: "fst (save_data e d NoFault file) = Some UnicodeEncodeError"
    if "\<not> list_all utf8_valid (json_iterencode e d)"
    using write_chunks_invalid [OF that, of "[]"] by (simp add: save_data_def w)
  from c1 c2 c3 c4 c5 show ?thesis by blast
qed

theorem save_data_in_place_witness:
  "list_all utf8_valid (json_iterencode sample_env state_one_value)
   \<and> json_loads sample_env (json_dumps sample_env state_one_value) = Some state_one_value
   \<and> save_data sample_env state_one_value NoFault (Some state_one)
       = (None, Some state_one_dumped)
   \<and> load_data sample_env (snd (save_data sample_env state_one_value NoFault (Some state_one)))
       = state_one_value
   \<and> json_loads sample_env (take 40 (json_dumps sample_env state_one_value)) = None
   \<and> load_data sample_env
         (snd (save_data sample_env state_one_value (WriteFault 40) (Some state_one)))
       = default_data
   \<and> save_data sample_env state_one_value OpenFault (Some state_one)
       = (Some OSError, Some state_one)"
proof -
  have v: "list_all utf8_valid (json_iterencode sample_env state_one_value)"
    using state_one_chunks_valid by (simp add: sample_env_def iterencode_table_def)
  have d: "json_dumps sample_env state_one_value = state_one_dumped"
    by (simp add: json_dumps_def sample_env_def iterencode_table_def state_one_chunks_dumped)
  have l: "json_loads sample_env state_one_dumped = Some state_one_value"
    by (simp add: sample_defs)
  have t: "json_loads sample_env (take 40 state_one_dumped) = None"
    by (simp add: sample_defs)
  show ?thesis
    using save_data_in_place [of sample_env state_one_value NoFault "Some state_one" 40] v
    by (simp add: d l t load_data_def)
qed

section \<open>The scheduler sweep: claims\<close>

lemma sends_api:
  "sends (snd (api_check_unlocked e base_url bearer account tr)) = sends tr"
  by (simp add: api_check_unlocked_def Let_def sends_append split: transport_outcome.splits)

lemma probe_all_append:
  "probe_all e u b (ps @ qs) tr = probe_all e u b qs (probe_all e u b ps tr)"
  by (induction ps arbitrary: tr) (auto split: prod.splits)

lemma check_accounts_delivered:
  assumes "\<forall>tr c n. send_message e tr c n = None" and "int_of_str e chat_id = Some cid"
  shows "check_accounts e u b chat_id accs tr = (None, probe_all e u b (map (Pair cid) accs) tr)"
  using assms
  by (induction accs arbitrary: tr) (auto simp: check_account_def Let_def split: prod.splits)

lemma check_chats_delivered:
  assumes "\<forall>tr c n. send_message e tr c n = None"
  shows "tracked e chats = Some ps \<Longrightarrow> check_chats e u b chats tr = (None, probe_all e u b ps tr)"
proof (induction chats arbitrary: tr ps)
  case Nil
  then show ?case by simp
next
  case (Cons kv rest)
  obtain chat_id cfg where kv: "kv = (chat_id, cfg)" by (cases kv)
  from Cons.prems kv obtain cid accs qs where
    cid: "int_of_str e chat_id = Some cid" and
    accs: "py_get cfg ''accounts'' (PList []) = Inr (PList accs)" and
    qs: "tracked e rest = Some qs" and
    ps: "ps = map (Pair cid) accs @ qs"
    by (auto split: option.splits sum.splits pyval.splits)
  show ?case
    using Cons.IH [OF qs] check_accounts_delivered [OF assms cid]
    by (simp add: kv accs ps probe_all_append)
qed

lemma posts_probe_all:
  assumes "truthy u" and "truthy b"
  shows "posts (probe_all e u b ps tr) =
         posts tr @ map (\<lambda>p. \<lparr>req_url = u, req_bearer = b, req_account = snd p\<rparr>) ps"
proof (induction ps arbitrary: tr)
  case Nil
  then show ?case by simp
next
  case (Cons p ps)
  obtain cid acc where p: "p = (cid, acc)" by (cases p)
  obtain res tr1 where r: "api_check_unlocked e u b acc tr = (res, tr1)"
    by (cases "api_check_unlocked e u b acc tr")
  with api_trace [OF assms, of e acc tr]
  have tr1: "tr1 = tr @ [Post \<lparr>req_url = u, req_bearer = b, req_account = acc\<rparr>]" by simp
  show ?case
    by (simp add: p r Cons.IH posts_append tr1)
qed

lemma periodic_check_configured:
  assumes "load_data e file = PDict kvs"
    and "map_of kvs ''api'' = Some (PDict api)"
    and "map_of api ''url'' = Some base_url" and "map_of api ''token'' = Some bearer"
    and "truthy base_url" and "truthy bearer"
    and "map_of kvs ''chats'' = Some (PDict chats)"
  shows "periodic_check e file tr = check_chats e base_url bearer chats tr"
  using assms by (simp add: periodic_check_def)

text \<open>
  C2, amended. A probe error at the step of one (subscriber, account) pair does not abort
  the sweep. Over a well-formed store with a configured endpoint, whatever the endpoint
  answers or fails to answer, and as long as no delivery fails, the sweep returns
  normally and is the sweep of the specification: every tracked account of every
  subscriber is probed, in order, and notified when its probe reports unlocked. A step
  whose probe fails completes with its request as its only effect.
\<close>

theorem sweep_survives_probe_errors:
  assumes "load_data e file = PDict kvs"
    and "map_of kvs ''api'' = Some (PDict api)"
    and "map_of api ''url'' = Some base_url" and "map_of api ''token'' = Some bearer"
    and "truthy base_url" and "truthy bearer"
    and "map_of kvs ''chats'' = Some (PDict chats)"
    and "tracked e chats = Some ps"
    and "\<forall>tr c n. send_message e tr c n = None"
  shows "periodic_check e file tr = (None, probe_all e base_url bearer ps tr)
       \<and> posts (snd (periodic_check e file tr)) =
           posts tr @ map (\<lambda>p. \<lparr>req_url = base_url, req_bearer = bearer,
                                   req_account = snd p\<rparr>) ps
       \<and> (http_post e step_tr \<lparr>req_url = base_url, req_bearer = bearer, req_account = acc\<rparr>
            = Raised msg \<longrightarrow>
          check_account e base_url bearer chat_id acc step_tr =
            (None, step_tr @ [Post \<lparr>req_url = base_url, req_bearer = bearer,
                                req_account = acc\<rparr>]))"
proof -
  have "periodic_check e file tr = check_chats e base_url bearer chats tr"
    using assms(1-7) by (rule periodic_check_configured)
  also have "\<dots> = (None, probe_all e base_url bearer ps tr)"
    using assms(9,8) by (rule check_chats_delivered)
  finally have sweep: "periodic_check e file tr = (None, probe_all e base_url bearer ps tr)" .
  have step: "check_account e base_url bearer chat_id acc step_tr =
      (None, step_tr @ [Post \<lparr>req_url = base_url, req_bearer = bearer, req_account = acc\<rparr>])"
    if "http_post e step_tr \<lparr>req_url = base_url, req_bearer = bearer, req_account = acc\<rparr>
          = Raised msg"
    using that assms(5,6) by (simp add: check_account_def api_check_unlocked_def)
  from sweep step show ?thesis
    by (simp add: posts_probe_all [OF assms(5,6)])
qed

theorem sweep_survives_probe_errors_witness:
  "load_data flaky_env (Some state_two) = state_two_value
   \<and> tracked flaky_env
        [(''1001'', PDict [(''accounts'', PList [PStr ''gamer123'', PStr ''gamer456'']),
                           (''interval_min'', PInt 5)])]
       = Some [(1001, PStr ''gamer123''), (1001, PStr ''gamer456'')]
   \<and> (\<forall>tr c n. send_message flaky_env tr c n = None)
   \<and> http_post flaky_env []
        \<lparr>req_url = PStr ''https://api.example/check'', req_bearer = PStr ''secret'',
         req_account = PStr ''gamer123''\<rparr> = Raised ''TimeoutError''
   \<and> check_account flaky_env (PStr ''https://api.example/check'') (PStr ''secret'') ''1001''
        (PStr ''gamer123'') [] =
       (None,
        [Post \<lparr>req_url = PStr ''https://api.example/check'', req_bearer = PStr ''secret'',
               req_account = PStr ''gamer123''\<rparr>])
   \<and> periodic_check flaky_env (Some state_two) [] =
       (None,
        [Post \<lparr>req_url = PStr ''https://api.example/check'', req_bearer = PStr ''secret'',
               req_account = PStr ''gamer123''\<rparr>,
         Post \<lparr>req_url = PStr ''https://api.example/check'', req_bearer = PStr ''secret'',
               req_account = PStr ''gamer456''\<rparr>,
         SendMessage 1001 \<lparr>n_account = PStr ''gamer456'', n_unlocked = True, n_time = 2\<rparr>])"
  using sweep_survives_probe_errors [where e = flaky_env and ?file = "Some state_two"
      and kvs = "[(''chats'', PDict [(''1001'', PDict [(''accounts'', PList [PStr ''gamer123'',
                                                                            PStr ''gamer456'']),
                                                       (''interval_min'', PInt 5)])]),
                  (''api'', PDict [(''url'', PStr ''https://api.example/check''),
                                   (''token'', PStr ''secret'')]),
                  (''last_seen_unlocked'', PDict []),
                  (''include_raw'', PBool False)]"
      and api = "[(''url'', PStr ''https://api.example/check''), (''token'', PStr ''secret'')]"
      and base_url = "PStr ''https://api.example/check''" and bearer = "PStr ''secret''"
      and chats = "[(''1001'', PDict [(''accounts'', PList [PStr ''gamer123'',
                                                           PStr ''gamer456'']),
                                      (''interval_min'', PInt 5)])]"
      and ps = "[(1001, PStr ''gamer123''), (1001, PStr ''gamer456'')]"
      and tr = "[]" and step_tr = "[]" and acc = "PStr ''gamer123''"
      and msg = "''TimeoutError''" and chat_id = "''1001''"]
  by (simp add: sample_defs flaky_env_def load_data_def api_check_unlocked_def extract_unlocked_def
        format_notification_def)

text \<open>
  C2, as stated, fails: subscriber 1001 tracks \<open>gamer123\<close> and \<open>gamer456\<close>, both
  unlocked, and Telegram refuses the message. The exception of \<open>send_message\<close> leaves
  \<open>periodic_check\<close> at the first account, and \<open>gamer456\<close> is never probed.
\<close>

theorem delivery_error_counterexample:
  "periodic_check blocked_env (Some state_two) [] =
     (Some (SendError ''Forbidden: bot was blocked by the user''),
      [Post \<lparr>req_url = PStr ''https://api.example/check'', req_bearer = PStr ''secret'',
             req_account = PStr ''gamer123''\<rparr>,
       SendMessage 1001 \<lparr>n_account = PStr ''gamer123'', n_unlocked = True, n_time = 1\<rparr>])
   \<and> posts (snd (periodic_check blocked_env (Some state_two) [])) =
       [\<lparr>req_url = PStr ''https://api.example/check'', req_bearer = PStr ''secret'',
         req_account = PStr ''gamer123''\<rparr>]"
  by (simp add: sample_defs blocked_env_def periodic_check_def load_data_def check_account_def
        api_check_unlocked_def extract_unlocked_def format_notification_def)

text \<open>
  C1, amended. The notification decision fires iff the probe reports unlocked: a step
  whose chat id is an integer attempts exactly one notification when the probe reports
  unlocked and none otherwise. The cache plays no part: two state files that agree on
  \<open>api\<close> and \<open>chats\<close> give the same sweep whatever \<open>last_seen_unlocked\<close> holds, and
  the sweep never writes the file.
\<close>

theorem notify_iff_probe_unlocked:
  "(int_of_str e chat_id = Some cid \<longrightarrow>
      sends (snd (check_account e base_url bearer chat_id acc tr)) =
        sends tr @
        (if unlocked (fst (api_check_unlocked e base_url bearer acc tr))
         then [(cid, format_notification acc True
                       (now e (snd (api_check_unlocked e base_url bearer acc tr))))]
         else []))
   \<and> (load_data e fileA = PDict kvsA \<and> load_data e fileB = PDict kvsB
        \<and> map_of kvsA ''api'' = map_of kvsB ''api''
        \<and> map_of kvsA ''chats'' = map_of kvsB ''chats'' \<longrightarrow>
      periodic_check e fileA tr = periodic_check e fileB tr)"
proof -
  have step: "sends (snd (check_account e base_url bearer chat_id acc tr)) =
        sends tr @
        (if unlocked (fst (api_check_unlocked e base_url bearer acc tr))
         then [(cid, format_notification acc True
                       (now e (snd (api_check_unlocked e base_url bearer acc tr))))]
         else [])"
    if "int_of_str e chat_id = Some cid"
    using that sends_api [of e base_url bearer acc tr]
    by (cases "api_check_unlocked e base_url bearer acc tr")
      (auto simp: check_account_def Let_def sends_append split: option.splits)
  have same: "periodic_check e fileA tr = periodic_check e fileB tr"
    if "load_data e fileA = PDict kvsA" and "load_data e fileB = PDict kvsB"
      and "map_of kvsA ''api'' = map_of kvsB ''api''"
      and "map_of kvsA ''chats'' = map_of kvsB ''chats''"
  proof -
    have a: "py_get (load_data e fileA) ''api'' (PDict []) =
             py_get (load_data e fileB) ''api'' (PDict [])"
      using that by simp
    have b: "py_index (load_data e fileA) ''chats'' = py_index (load_data e fileB) ''chats''"
      using that by simp
    show ?thesis
      by (simp only: periodic_check_def Let_def a b)
  qed
  from step same show ?thesis by blast
qed

theorem notify_iff_probe_unlocked_witness:
  "int_of_str sample_env ''1001'' = Some 1001
   \<and> unlocked (fst (api_check_unlocked sample_env (PStr ''https://api.example/check'')
        (PStr ''secret'') (PStr ''gamer123'') []))
   \<and> sends (snd (check_account sample_env (PStr ''https://api.example/check'')
        (PStr ''secret'') ''1001'' (PStr ''gamer123'') []))
      = [(1001, \<lparr>n_account = PStr ''gamer123'', n_unlocked = True, n_time = 1\<rparr>)]
   \<and> load_data sample_env (Some state_one) = state_one_value
   \<and> load_data sample_env (Some state_one_fresh) = state_one_fresh_value
   \<and> periodic_check sample_env (Some state_one) []
      = periodic_check sample_env (Some state_one_fresh) []"
  using notify_iff_probe_unlocked [where e = sample_env and chat_id = "''1001''"
      and cid = 1001 and base_url = "PStr ''https://api.example/check''"
      and bearer = "PStr ''secret''" and acc = "PStr ''gamer123''" and tr = "[]"
      and fileA = "Some state_one"
      and kvsA = "[(''chats'', PDict [(''1001'', PDict [(''accounts'', PList [PStr ''gamer123'']),
                                                        (''interval_min'', PInt 5)])]),
                   (''api'', PDict [(''url'', PStr ''https://api.example/check''),
                                    (''token'', PStr ''secret'')]),
                   (''last_seen_unlocked'', PDict [(''gamer123'', PBool True)]),
                   (''include_raw'', PBool False)]"
      and fileB = "Some state_one_fresh"
      and kvsB = "[(''chats'', PDict [(''1001'', PDict [(''accounts'', PList [PStr ''gamer123'']),
                                                        (''interval_min'', PInt 5)])]),
                   (''api'', PDict [(''url'', PStr ''https://api.example/check''),
                                    (''token'', PStr ''secret'')]),
                   (''last_seen_unlocked'', PDict []),
                   (''include_raw'', PBool False)]"]
  by (simp add: sample_defs load_data_def api_check_unlocked_def extract_unlocked_def
        format_notification_def)

text \<open>
  C1, as stated, fails: subscriber 1001 tracks \<open>gamer123\<close>, the endpoint answers
  \<open>{"unlocked": true}\<close>, and the cache entry of \<open>gamer123\<close> is already true. The
  sweep sends a notification, and the sweep after it sends another one.
\<close>

theorem dedup_counterexample:
  "py_index (load_data sample_env (Some state_one)) ''last_seen_unlocked''
     = Inr (PDict [(''gamer123'', PBool True)])
   \<and> periodic_check sample_env (Some state_one) [] =
       (None,
        [Post \<lparr>req_url = PStr ''https://api.example/check'', req_bearer = PStr ''secret'',
               req_account = PStr ''gamer123''\<rparr>,
         SendMessage 1001 \<lparr>n_account = PStr ''gamer123'', n_unlocked = True, n_time = 1\<rparr>])
   \<and> periodic_check sample_env (Some state_one)
        (snd (periodic_check sample_env (Some state_one) [])) =
       (None,
        [Post \<lparr>req_url = PStr ''https://api.example/check'', req_bearer = PStr ''secret'',
               req_account = PStr ''gamer123''\<rparr>,
         SendMessage 1001 \<lparr>n_account = PStr ''gamer123'', n_unlocked = True, n_time = 1\<rparr>,
         Post \<lparr>req_url = PStr ''https://api.example/check'', req_bearer = PStr ''secret'',
               req_account = PStr ''gamer123''\<rparr>,
         SendMessage 1001 \<lparr>n_account = PStr ''gamer123'', n_unlocked = True, n_time = 3\<rparr>])"
  by (simp add: sample_defs periodic_check_def load_data_def check_account_def
        api_check_unlocked_def extract_unlocked_def format_notification_def)


end
